theory Spec2Isabelle
  imports Complex_Main "HOL-Library.Sublist"
begin

section \<open>The logging core of hummingbot: \<^verbatim>\<open>hummingbot/logger/logger.py\<close>\<close>

text \<open>
  The module extends Python's \<^verbatim>\<open>logging.Logger\<close> with a handler that ships records to an
  MQTT topic (\<^verbatim>\<open>MQTTHandler\<close>), two domain operations (\<^verbatim>\<open>notify\<close>, \<^verbatim>\<open>network\<close>) and a copy
  of the standard library's caller lookup (\<^verbatim>\<open>findCaller\<close>).

  Everything the module reads from its surroundings is a field of the record \<open>world\<close>;
  everything it does to its surroundings is an \<open>event\<close> of the trace an operation returns.
  An operation returns its trace and \<open>None\<close> when it returns normally, \<open>Some e\<close> when it
  raises \<open>e\<close>.
\<close>

subsection \<open>Data\<close>

datatype error =
    ValueError          \<comment> \<open>\<^verbatim>\<open>sys._getframe\<close>: call stack is not deep enough\<close>
  | AttributeError      \<comment> \<open>a method looked up on \<^verbatim>\<open>None\<close>\<close>
  | TypeError           \<comment> \<open>\<^verbatim>\<open>msg % args\<close> when the arguments do not fit the message\<close>
  | TransportError string  \<comment> \<open>whatever the transport's \<^verbatim>\<open>publish\<close> raises\<close>

text \<open>A frame of the interpreter's call stack: \<^verbatim>\<open>f.f_code.co_filename\<close>, \<^verbatim>\<open>f.f_lineno\<close>,
  \<^verbatim>\<open>f.f_code.co_name\<close>. A frame reference is the list of the frame and its \<^verbatim>\<open>f_back\<close> chain,
  innermost first; \<^verbatim>\<open>None\<close> is the empty list.\<close>

record frame =
  co_filename :: string
  f_lineno :: int
  co_name :: string

type_synonym caller_location = "string \<times> int \<times> string \<times> string option"

text \<open>The fields of \<^verbatim>\<open>logging.LogRecord\<close> that the module reads: \<^verbatim>\<open>name\<close>, \<^verbatim>\<open>levelno\<close>,
  \<^verbatim>\<open>levelname\<close>, \<^verbatim>\<open>msg\<close> (here \<open>record_name\<close> and \<open>record_msg\<close>, the plain names being
  fields of the logger and of the wire message).\<close>

record LogRecord =
  record_name :: string
  levelno :: int
  levelname :: string
  record_msg :: string

text \<open>\<^verbatim>\<open>class LogMessage(PubSubMessage)\<close>, the message put on the wire.\<close>

record LogMessage =
  timestamp :: real
  msg :: string
  level_no :: int
  level_name :: string
  logger_name :: string

text \<open>Modelled from the spec: \<^verbatim>\<open>ApplicationWarning\<close> of \<^verbatim>\<open>application_warning.py\<close>, which is
  not among the sources; the spec gives the record as \{timestamp, logger\_name,
  caller\_location, message\}, \<^verbatim>\<open>network\<close> builds it positionally in that order and reads its
  \<^verbatim>\<open>warning_msg\<close>.\<close>

record ApplicationWarning =
  warning_timestamp :: real
  warning_logger_name :: string
  caller_info :: caller_location
  warning_msg :: string

datatype MQTTConnectionParameters =
    DefaultConnectionParameters          \<comment> \<open>\<^verbatim>\<open>MQTTConnectionParameters()\<close>\<close>
  | ConnectionParameters string nat

text \<open>\<^verbatim>\<open>MQTTHandler\<close>: the level it inherits from \<^verbatim>\<open>logging.Handler\<close> and the publisher
  \<^verbatim>\<open>self.mqtt_pub\<close>, made of the connection parameters and the topic.\<close>

record MQTTHandler =
  handler_level :: int
  conn_params :: MQTTConnectionParameters
  topic :: string

text \<open>A logger above this one in the hierarchy, as \<^verbatim>\<open>getEffectiveLevel\<close> and
  \<^verbatim>\<open>callHandlers\<close> read it through \<^verbatim>\<open>parent\<close>: its \<^verbatim>\<open>level\<close>, \<^verbatim>\<open>handlers\<close> and
  \<^verbatim>\<open>propagate\<close>.\<close>

record LoggerNode =
  node_level :: int
  node_handlers :: "MQTTHandler list"
  node_propagate :: bool

text \<open>\<^verbatim>\<open>HummingbotLogger\<close>: the attributes of \<^verbatim>\<open>logging.Logger\<close> that a logging call reads.
  \<open>ancestors\<close> is the chain \<^verbatim>\<open>self.parent\<close>, \<^verbatim>\<open>self.parent.parent\<close>, ..., nearest first.\<close>

record HummingbotLogger =
  name :: string
  level :: int
  handlers :: "MQTTHandler list"
  propagate :: bool
  disabled :: bool
  ancestors :: "LoggerNode list"

text \<open>What an operation does to its collaborators, in order.\<close>

datatype event =
    Log int string                          \<comment> \<open>\<^verbatim>\<open>self.log(level, msg)\<close> entered\<close>
  | Publish string LogMessage               \<comment> \<open>\<^verbatim>\<open>self.mqtt_pub.publish(msg)\<close> on a topic\<close>
  | MainApplication                         \<comment> \<open>\<^verbatim>\<open>HummingbotApplication.main_application()\<close>\<close>
  | AppNotify string                        \<comment> \<open>\<^verbatim>\<open>hummingbot_app.notify(text)\<close>\<close>
  | AddApplicationWarning ApplicationWarning \<comment> \<open>\<^verbatim>\<open>hummingbot_app.add_application_warning(w)\<close>\<close>

type_synonym outcome = "event list \<times> error option"

text \<open>The surroundings of the module. \<open>INFO\<close>, \<open>NETWORK\<close> and \<open>NOTIFY\<close> are the level constants
  of the package (\<^verbatim>\<open>from . import INFO\<close>, \<^verbatim>\<open>from . import NETWORK\<close>), whose
  \<^verbatim>\<open>__init__.py\<close> is not among the sources: they are parameters.\<close>

record world =
  argv :: "string list"                       \<comment> \<open>\<^verbatim>\<open>sys.argv\<close>\<close>
  getenv :: "string \<Rightarrow> string option"          \<comment> \<open>\<^verbatim>\<open>os.getenv\<close>\<close>
  time :: real                                \<comment> \<open>\<^verbatim>\<open>time.time()\<close>\<close>
  normcase :: "string \<Rightarrow> string"               \<comment> \<open>\<^verbatim>\<open>os.path.normcase\<close>\<close>
  srcpath :: string                           \<comment> \<open>\<^verbatim>\<open>HummingbotLogger.network.__code__.co_filename\<close>\<close>
  print_stack :: "frame list \<Rightarrow> string"        \<comment> \<open>\<^verbatim>\<open>traceback.print_stack(f, file=sio)\<close>\<close>
  getLevelName :: "int \<Rightarrow> string"              \<comment> \<open>\<^verbatim>\<open>logging.getLevelName\<close>\<close>
  format :: "LogRecord \<Rightarrow> error + string"      \<comment> \<open>\<^verbatim>\<open>Handler.format\<close>: \<open>Inl e\<close> when it raises\<close>
  manager_disable :: int                      \<comment> \<open>\<^verbatim>\<open>Logger.manager.disable\<close>\<close>
  publish :: "string \<Rightarrow> LogMessage \<Rightarrow> error option"  \<comment> \<open>the transport: \<open>Some e\<close> when it raises\<close>
  has_main_application :: bool                \<comment> \<open>\<^verbatim>\<open>main_application()\<close> is not \<^verbatim>\<open>None\<close>\<close>
  timestamp_str :: "int \<Rightarrow> string"             \<comment> \<open>\<^verbatim>\<open>str(pd.Timestamp.fromtimestamp(t))\<close>\<close>
  INFO :: int
  NETWORK :: int
  NOTIFY :: int

definition WARNING :: int where
  "WARNING = 30"

text \<open>Modelled from the spec: the order of the package's level constants, defined in
  \<^verbatim>\<open>hummingbot/logger/__init__.py\<close>, which is not among the sources; the spec fixes that the
  NOTIFY rank lies strictly between the INFO and the WARNING ranks.\<close>

definition levels_ok :: "world \<Rightarrow> bool" where
  "levels_ok w = (INFO w < NOTIFY w \<and> NOTIFY w < WARNING)"

subsection \<open>Sequencing\<close>

text \<open>\<open>a; b\<close>: when \<open>a\<close> raises, \<open>b\<close> does not run.\<close>

definition seq :: "outcome \<Rightarrow> outcome \<Rightarrow> outcome" where
  "seq a b = (case snd a of Some e \<Rightarrow> a | None \<Rightarrow> (fst a @ fst b, snd b))"

definition done_ok :: outcome where
  "done_ok = ([], None)"

subsection \<open>Strings\<close>

text \<open>Python's \<^verbatim>\<open>sub in s\<close> on strings.\<close>

fun str_in :: "string \<Rightarrow> string \<Rightarrow> bool" where
  "str_in sub [] = (sub = [])"
| "str_in sub (c # cs) = (prefix sub (c # cs) \<or> str_in sub cs)"

text \<open>Python's \<^verbatim>\<open>s.replace(old, new)\<close>: every occurrence, left to right, without
  overlap; an empty \<^verbatim>\<open>old\<close> matches before every character and at the end.\<close>

function replace :: "string \<Rightarrow> string \<Rightarrow> string \<Rightarrow> string" where
  "replace old new [] = (if old = [] then new else [])"
| "replace old new (c # cs) =
     (if old = [] then new @ c # replace old new cs
      else if prefix old (c # cs) then new @ replace old new (drop (length old) (c # cs))
      else c # replace old new cs)"
  by pat_completeness auto
termination
  by (relation "measure (\<lambda>(old, new, s). length s)") auto

text \<open>\<^verbatim>\<open>str(os.getenv(k))\<close>: \<^verbatim>\<open>str(None)\<close> is \<^verbatim>\<open>'None'\<close>.\<close>

definition str_of_env :: "string option \<Rightarrow> string" where
  "str_of_env v = (case v of None \<Rightarrow> ''None'' | Some s \<Rightarrow> s)"

text \<open>\<^verbatim>\<open>int(x)\<close> on a float truncates towards zero.\<close>

definition py_int :: "real \<Rightarrow> int" where
  "py_int x = (if 0 \<le> x then \<lfloor>x\<rfloor> else \<lceil>x\<rceil>)"

subsection \<open>Test mode\<close>

definition TESTING_TOOLS :: "string list" where
  "TESTING_TOOLS = [''nose'', ''unittest'', ''pytest'']"

definition is_testing_mode :: "string list \<Rightarrow> bool" where
  "is_testing_mode args =
     list_ex (\<lambda>tools. list_ex (\<lambda>arg. str_in tools arg) args) TESTING_TOOLS"

subsection \<open>The remote sink\<close>

definition MQTT_URI :: string where
  "MQTT_URI = ''hbot/$UID/log''"

definition MQTTHandler_init ::
  "world \<Rightarrow> MQTTConnectionParameters option \<Rightarrow> string option \<Rightarrow> MQTTHandler" where
  "MQTTHandler_init w mqtt_params mqtt_topic =
     (let params = (case mqtt_params of None \<Rightarrow> DefaultConnectionParameters | Some p \<Rightarrow> p);
          t = (if mqtt_topic = Some '''' \<or> mqtt_topic = None
               then replace ''$UID'' (str_of_env (getenv w ''HBOT_UID'')) MQTT_URI
               else the mqtt_topic)
      in \<lparr>handler_level = 0, conn_params = params, topic = t\<rparr>)"

text \<open>The \<^verbatim>\<open>LogMessage\<close> that \<^verbatim>\<open>emit\<close> builds from the record and its formatted text.\<close>

definition to_message :: "world \<Rightarrow> LogRecord \<Rightarrow> string \<Rightarrow> LogMessage" where
  "to_message w r msg_str =
     \<lparr>timestamp = time w, msg = msg_str, level_no = levelno r,
      level_name = levelname r, logger_name = record_name r\<rparr>"

text \<open>\<^verbatim>\<open>emit\<close>: what \<^verbatim>\<open>self.format(record)\<close> raises leaves \<^verbatim>\<open>emit\<close> before anything is
  published, what \<^verbatim>\<open>publish\<close> raises leaves it afterwards.\<close>

definition emit :: "world \<Rightarrow> MQTTHandler \<Rightarrow> LogRecord \<Rightarrow> outcome" where
  "emit w h r =
     (case format w r of
        Inl e \<Rightarrow> ([], Some e)
      | Inr msg_str \<Rightarrow>
          (let m = to_message w r msg_str in ([Publish (topic h) m], publish w (topic h) m)))"

subsection \<open>The inherited logger\<close>

text \<open>The part of \<^verbatim>\<open>logging.Logger\<close> that the module relies on, as the standard library has
  it. \<^verbatim>\<open>getEffectiveLevel\<close> is the first level other than \<^verbatim>\<open>NOTSET\<close> (0) on the way up
  from the logger through its parents. \<^verbatim>\<open>isEnabledFor\<close> refuses on a disabled logger and on
  a level not above the manager's \<^verbatim>\<open>disable\<close>, and else compares with the effective level.
  \<^verbatim>\<open>callHandlers\<close> hands the record to the handlers of the logger and, as long as
  \<^verbatim>\<open>propagate\<close> is set, of each parent in turn, a handler taking the record when its level
  is not above the record's; \<^verbatim>\<open>Handler.handle\<close> calls \<^verbatim>\<open>emit\<close> with no handler of exceptions
  around it. The message is taken with its \<^verbatim>\<open>args\<close>, which \<^verbatim>\<open>format\<close> merges. Handlers
  of other classes, filters, the last-resort handler and the source location that \<^verbatim>\<open>_log\<close>
  stores in the record are not modelled.\<close>

fun first_level :: "int list \<Rightarrow> int" where
  "first_level [] = 0"
| "first_level (l # ls) = (if l \<noteq> 0 then l else first_level ls)"

definition getEffectiveLevel :: "HummingbotLogger \<Rightarrow> int" where
  "getEffectiveLevel lg = first_level (level lg # map node_level (ancestors lg))"

definition isEnabledFor :: "world \<Rightarrow> HummingbotLogger \<Rightarrow> int \<Rightarrow> bool" where
  "isEnabledFor w lg lv =
     (if disabled lg then False
      else if manager_disable w \<ge> lv then False
      else lv \<ge> getEffectiveLevel lg)"

definition makeRecord :: "world \<Rightarrow> HummingbotLogger \<Rightarrow> int \<Rightarrow> string \<Rightarrow> LogRecord" where
  "makeRecord w lg lv m =
     \<lparr>record_name = name lg, levelno = lv, levelname = getLevelName w lv, record_msg = m\<rparr>"

text \<open>\<^verbatim>\<open>for hdlr in c.handlers: if record.levelno >= hdlr.level: hdlr.handle(record)\<close>\<close>

fun handle_all :: "world \<Rightarrow> MQTTHandler list \<Rightarrow> LogRecord \<Rightarrow> outcome" where
  "handle_all w [] r = done_ok"
| "handle_all w (h # hs) r =
     seq (if levelno r \<ge> handler_level h then emit w h r else done_ok) (handle_all w hs r)"

text \<open>The rest of the loop \<^verbatim>\<open>while c:\<close> of \<^verbatim>\<open>callHandlers\<close>, from the parent on.\<close>

fun call_ancestors :: "world \<Rightarrow> LoggerNode list \<Rightarrow> LogRecord \<Rightarrow> outcome" where
  "call_ancestors w [] r = done_ok"
| "call_ancestors w (c # cs) r =
     seq (handle_all w (node_handlers c) r)
       (if node_propagate c then call_ancestors w cs r else done_ok)"

definition callHandlers :: "world \<Rightarrow> HummingbotLogger \<Rightarrow> LogRecord \<Rightarrow> outcome" where
  "callHandlers w lg r =
     seq (handle_all w (handlers lg) r)
       (if propagate lg then call_ancestors w (ancestors lg) r else done_ok)"

definition Logger_log :: "world \<Rightarrow> HummingbotLogger \<Rightarrow> int \<Rightarrow> string \<Rightarrow> outcome" where
  "Logger_log w lg lv m =
     seq ([Log lv m], None)
       (if isEnabledFor w lg lv then callHandlers w lg (makeRecord w lg lv m)
        else done_ok)"

definition Logger_warning :: "world \<Rightarrow> HummingbotLogger \<Rightarrow> string \<Rightarrow> outcome" where
  "Logger_warning w lg m = Logger_log w lg WARNING m"

subsection \<open>The caller lookup\<close>

text \<open>\<^verbatim>\<open>sys._getframe(depth)\<close> on the stack of active frames, innermost first: the frame
  \<open>depth\<close> calls below the top, \<^verbatim>\<open>ValueError\<close> when the stack is not that deep.\<close>

definition getframe :: "nat \<Rightarrow> frame list \<Rightarrow> error + frame list" where
  "getframe depth stack = (if depth < length stack then Inr (drop depth stack) else Inl ValueError)"

text \<open>\<^verbatim>\<open>currentframe()\<close>. The stack is the one \<^verbatim>\<open>currentframe\<close> runs on: its own frame first,
  then that of \<^verbatim>\<open>findCaller\<close>, then the callers of \<^verbatim>\<open>findCaller\<close>.\<close>

definition currentframe :: "frame list \<Rightarrow> error + frame list" where
  "currentframe stack = getframe 3 stack"

definition srcfile :: "world \<Rightarrow> string" where
  "srcfile w = normcase w (srcpath w)"

definition sentinel :: caller_location where
  "sentinel = (''(unknown file)'', 0, ''(unknown function)'', None)"

text \<open>\<^verbatim>\<open>while f and stacklevel > 1: f = f.f_back; stacklevel -= 1\<close>\<close>

fun skip_stacklevel :: "frame list \<Rightarrow> int \<Rightarrow> frame list" where
  "skip_stacklevel [] stacklevel = []"
| "skip_stacklevel (f # back) stacklevel =
     (if stacklevel > 1 then skip_stacklevel back (stacklevel - 1) else f # back)"

definition stack_text :: "world \<Rightarrow> frame list \<Rightarrow> string" where
  "stack_text w f =
     (let sinfo = ''Stack (most recent call last):'' @ [CHR 0x0A] @ print_stack w f
      in if last sinfo = CHR 0x0A then butlast sinfo else sinfo)"

text \<open>\<^verbatim>\<open>while hasattr(f, "f_code"): ...\<close>\<close>

fun first_outside :: "world \<Rightarrow> frame list \<Rightarrow> bool \<Rightarrow> caller_location" where
  "first_outside w [] stack_info = sentinel"
| "first_outside w (f # back) stack_info =
     (if normcase w (co_filename f) = srcfile w then first_outside w back stack_info
      else (co_filename f, f_lineno f, co_name f,
            if stack_info then Some (stack_text w (f # back)) else None))"

definition findCaller :: "world \<Rightarrow> frame list \<Rightarrow> bool \<Rightarrow> int \<Rightarrow> error + caller_location" where
  "findCaller w stack stack_info stacklevel =
     (case currentframe stack of
        Inl e \<Rightarrow> Inl e
      | Inr f0 \<Rightarrow>
          (let f1 = (if f0 \<noteq> [] then tl f0 else f0);
               orig_f = f1;
               f2 = skip_stacklevel f1 stacklevel;
               f3 = (if f2 = [] then orig_f else f2)
           in Inr (first_outside w f3 stack_info)))"

subsection \<open>The logger\<close>

definition remote_logging_tokens :: "string list" where
  "remote_logging_tokens = [''1'', ''True'', ''true'', ''Yes'', ''Nai'', ''Si'', ''Da'', ''sudo'']"

definition HummingbotLogger_init :: "world \<Rightarrow> string \<Rightarrow> HummingbotLogger" where
  "HummingbotLogger_init w nm =
     (let self = \<lparr>name = nm, level = 0, handlers = [], propagate = True, disabled = False,
                 ancestors = []\<rparr>
      in if getenv w ''HBOT_MQTT_LOGGING'' \<in> set (map Some remote_logging_tokens)
         then self\<lparr>handlers := handlers self @ [MQTTHandler_init w None (Some '''')]\<rparr>
         else self)"

definition main_application :: "world \<Rightarrow> outcome" where
  "main_application w = ([MainApplication], None)"

text \<open>A method call on what \<^verbatim>\<open>main_application()\<close> returned: on \<^verbatim>\<open>None\<close> it raises.\<close>

definition app_call :: "world \<Rightarrow> event \<Rightarrow> outcome" where
  "app_call w e = (if has_main_application w then ([e], None) else ([], Some AttributeError))"

definition notify :: "world \<Rightarrow> HummingbotLogger \<Rightarrow> string \<Rightarrow> outcome" where
  "notify w self m =
     seq (Logger_log w self (INFO w) m)
       (if \<not> is_testing_mode (argv w)
        then seq (main_application w)
               (app_call w (AppNotify (''('' @ timestamp_str w (py_int (time w)) @ '') '' @ m)))
        else done_ok)"

text \<open>The stack on which \<^verbatim>\<open>currentframe\<close> runs when \<^verbatim>\<open>network\<close> calls \<^verbatim>\<open>self.findCaller()\<close>:
  the three frames of this module, then the frames \<open>callers\<close> from which \<^verbatim>\<open>network\<close> was
  called, its caller first; there is none when \<^verbatim>\<open>network\<close> is the outermost frame, as for a
  callback of \<^verbatim>\<open>atexit\<close>. The line numbers are those of the calls in the source.\<close>

definition currentframe_frame :: "world \<Rightarrow> frame" where
  "currentframe_frame w = \<lparr>co_filename = srcpath w, f_lineno = 25, co_name = ''currentframe''\<rparr>"

definition findCaller_frame :: "world \<Rightarrow> frame" where
  "findCaller_frame w = \<lparr>co_filename = srcpath w, f_lineno = 125, co_name = ''findCaller''\<rparr>"

definition network_frame :: "world \<Rightarrow> frame" where
  "network_frame w = \<lparr>co_filename = srcpath w, f_lineno = 112, co_name = ''network''\<rparr>"

definition network_stack :: "world \<Rightarrow> frame list \<Rightarrow> frame list" where
  "network_stack w callers =
     currentframe_frame w # findCaller_frame w # network_frame w # callers"

text \<open>\<^verbatim>\<open>network(log_msg, app_warning_msg)\<close>, called from the frames \<open>callers\<close>; the \<^verbatim>\<open>*args\<close>
  and \<^verbatim>\<open>**kwargs\<close> passed on to \<^verbatim>\<open>self.log\<close> are taken as part of the message.\<close>

definition network ::
  "world \<Rightarrow> HummingbotLogger \<Rightarrow> frame list \<Rightarrow> string \<Rightarrow> string option \<Rightarrow> outcome" where
  "network w self callers log_msg app_warning_msg =
     seq (Logger_log w self (NETWORK w) log_msg)
       (if app_warning_msg \<noteq> None \<and> \<not> is_testing_mode (argv w)
        then (case findCaller w (network_stack w callers) False 1 of
                Inl e \<Rightarrow> ([], Some e)
              | Inr loc \<Rightarrow>
                  (let app_warning =
                         \<lparr>warning_timestamp = time w, warning_logger_name = name self,
                          caller_info = loc, warning_msg = the app_warning_msg\<rparr>
                   in seq (Logger_warning w self (warning_msg app_warning))
                        (seq (main_application w)
                           (app_call w (AddApplicationWarning app_warning)))))
        else done_ok)"

subsection \<open>Observations\<close>

text \<open>An event on the host application: the accessor of the singleton, or a method of the
  instance.\<close>

fun touches_application :: "event \<Rightarrow> bool" where
  "touches_application MainApplication = True"
| "touches_application (AppNotify text) = True"
| "touches_application (AddApplicationWarning a) = True"
| "touches_application (Log lv m) = False"
| "touches_application (Publish t m) = False"

text \<open>A frame whose source path is not that of this module, as \<^verbatim>\<open>findCaller\<close> compares
  them.\<close>

definition outside_core :: "world \<Rightarrow> frame \<Rightarrow> bool" where
  "outside_core w f = (normcase w (co_filename f) \<noteq> srcfile w)"

definition location_of :: "frame \<Rightarrow> caller_location" where
  "location_of f = (co_filename f, f_lineno f, co_name f, None)"


text \<open>The frame reference at which the second loop of \<^verbatim>\<open>findCaller\<close> starts once
  \<^verbatim>\<open>currentframe\<close> has returned: the stack without its four innermost frames (those of
  \<^verbatim>\<open>currentframe\<close> and \<^verbatim>\<open>findCaller\<close> and the two above them), moved on by \<^verbatim>\<open>stacklevel\<close>,
  or not moved when that runs off the stack.\<close>

definition walk_start :: "frame list \<Rightarrow> int \<Rightarrow> frame list" where
  "walk_start stack stacklevel =
     (if skip_stacklevel (drop 4 stack) stacklevel = [] then drop 4 stack
      else skip_stacklevel (drop 4 stack) stacklevel)"

subsection \<open>Example surroundings\<close>

text \<open>A POSIX process (\<^verbatim>\<open>normcase\<close> is the identity) started as the trading client, with
  remote logging switched on, a transport that accepts every message and a running
  application.\<close>

definition posix_world :: world where
  "posix_world =
     \<lparr>argv = [''bin/hummingbot_quickstart.py''],
      getenv = (\<lambda>k. if k = ''HBOT_MQTT_LOGGING'' then Some ''true''
                     else if k = ''HBOT_UID'' then Some ''bot7'' else None),
      time = 1700000000,
      normcase = (\<lambda>p. p),
      srcpath = ''/hummingbot/logger/logger.py'',
      print_stack = (\<lambda>f. concat (map (\<lambda>x. co_name x @ [CHR 0x0A]) (rev f))),
      getLevelName = (\<lambda>n. if n = 20 then ''INFO'' else if n = 30 then ''WARNING'' else ''Level''),
      format = (\<lambda>r. if record_msg r = ''%d items'' then Inl TypeError else Inr (record_msg r)),
      manager_disable = 0,
      publish = (\<lambda>t m. None),
      has_main_application = True,
      timestamp_str = (\<lambda>t. if t = 1700000000 then ''2023-11-14 22:13:20''
                            else ''1970-01-01 00:00:00''),
      INFO = 20, NETWORK = 29, NOTIFY = 25\<rparr>"

text \<open>The same process started by a test runner.\<close>

definition pytest_world :: world where
  "pytest_world = posix_world\<lparr>argv := [''/usr/bin/pytest'', ''test/test_logger.py'']\<rparr>"


definition strategy_frame :: frame where
  "strategy_frame = \<lparr>co_filename = ''/app/strategy.py'', f_lineno = 10, co_name = ''tick''\<rparr>"

definition main_frame :: frame where
  "main_frame = \<lparr>co_filename = ''/app/main.py'', f_lineno = 3, co_name = ''<module>''\<rparr>"

definition hello_record :: LogRecord where
  "hello_record =
     \<lparr>record_name = ''x.y'', levelno = 20, levelname = ''INFO'', record_msg = ''hello''\<rparr>"

definition plain_logger :: HummingbotLogger where
  "plain_logger =
     \<lparr>name = ''x.y'', level = 0, handlers = [], propagate = True, disabled = False,
      ancestors = []\<rparr>"

definition remote_handler :: MQTTHandler where
  "remote_handler =
     \<lparr>handler_level = 0, conn_params = DefaultConnectionParameters, topic = ''hbot/bot7/log''\<rparr>"

definition remote_logger :: HummingbotLogger where
  "remote_logger =
     \<lparr>name = ''x.y'', level = 0, handlers = [remote_handler], propagate = True,
      disabled = False, ancestors = []\<rparr>"

text \<open>The frames of \<^verbatim>\<open>Logger._log\<close> and \<^verbatim>\<open>Logger.warning\<close> in the standard library, through
  which a logging call reaches \<^verbatim>\<open>findCaller\<close>.\<close>

definition stdlib_log_frame :: frame where
  "stdlib_log_frame =
     \<lparr>co_filename = ''/usr/lib/python3/logging/__init__.py'', f_lineno = 1622, co_name = ''_log''\<rparr>"

definition stdlib_warning_frame :: frame where
  "stdlib_warning_frame =
     \<lparr>co_filename = ''/usr/lib/python3/logging/__init__.py'', f_lineno = 1501,
      co_name = ''warning''\<rparr>"

section \<open>Properties\<close>

subsection \<open>Helper facts\<close>

lemma seq_done_ok: "seq a done_ok = a"
  by (cases a) (auto simp: seq_def done_ok_def split: option.splits)

lemma str_in_iff: "str_in sub s \<longleftrightarrow> (\<exists>pre post. s = pre @ sub @ post)"
proof (induction s)
  case Nil
  show ?case by auto
next
  case (Cons c cs)
  show ?case
  proof
    assume "str_in sub (c # cs)"
    then consider "prefix sub (c # cs)" | "str_in sub cs" by auto
    then show "\<exists>pre post. c # cs = pre @ sub @ post"
    proof cases
      case 1
      then obtain post where "c # cs = sub @ post" by (auto simp: prefix_def)
      then have "c # cs = [] @ sub @ post" by simp
      then show ?thesis by blast
    next
      case 2
      with Cons.IH obtain pre post where "cs = pre @ sub @ post" by blast
      then have "c # cs = (c # pre) @ sub @ post" by simp
      then show ?thesis by blast
    qed
  next
    assume "\<exists>pre post. c # cs = pre @ sub @ post"
    then obtain pre post where eq: "c # cs = pre @ sub @ post" by blast
    show "str_in sub (c # cs)"
    proof (cases pre)
      case Nil
      with eq have "prefix sub (c # cs)" by (simp add: prefix_def)
      then show ?thesis by simp
    next
      case (Cons p ps)
      with eq have "cs = ps @ sub @ post" by simp
      with Cons.IH have "str_in sub cs" by blast
      then show ?thesis by simp
    qed
  qed
qed

lemma is_testing_mode_set:
  "is_testing_mode args \<longleftrightarrow> (\<exists>arg \<in> set args. \<exists>tool \<in> set TESTING_TOOLS. str_in tool arg)"
  by (auto simp: is_testing_mode_def list_ex_iff)

lemma set_TESTING_TOOLS: "set TESTING_TOOLS = {''nose'', ''unittest'', ''pytest''}"
  by (simp add: TESTING_TOOLS_def)

lemma notify_testing:
  "is_testing_mode (argv w) \<Longrightarrow> notify w self m = Logger_log w self (INFO w) m"
  by (simp add: notify_def seq_done_ok)

lemma network_testing:
  "is_testing_mode (argv w) \<Longrightarrow>
   network w self callers log_msg app_warning_msg = Logger_log w self (NETWORK w) log_msg"
  by (simp add: network_def seq_done_ok)

lemma replace_MQTT_URI: "replace ''$UID'' uid MQTT_URI = ''hbot/'' @ uid @ ''/log''"
  by (simp add: MQTT_URI_def)

lemma init_handlers:
  "handlers (HummingbotLogger_init w nm) =
     (if getenv w ''HBOT_MQTT_LOGGING'' \<in> Some ` set remote_logging_tokens
      then [MQTTHandler_init w None (Some '''')] else [])"
  by (simp add: HummingbotLogger_init_def Let_def)

lemma fst_seq: "fst (seq a b) = (if snd a = None then fst a @ fst b else fst a)"
  by (simp add: seq_def split: option.splits)


lemma emit_events: "e \<in> set (fst (emit w h r)) \<Longrightarrow> \<exists>t m. e = Publish t m"
  by (auto simp: emit_def Let_def split: sum.splits)

lemma handle_all_events:
  "e \<in> set (fst (handle_all w hs r)) \<Longrightarrow> \<exists>t m. e = Publish t m"
  by (induction hs) (auto simp: done_ok_def fst_seq split: if_splits dest: emit_events)

lemma call_ancestors_events:
  "e \<in> set (fst (call_ancestors w cs r)) \<Longrightarrow> \<exists>t m. e = Publish t m"
  by (induction cs) (auto simp: done_ok_def fst_seq split: if_splits dest: handle_all_events)

lemma callHandlers_events:
  "e \<in> set (fst (callHandlers w lg r)) \<Longrightarrow> \<exists>t m. e = Publish t m"
  by (auto simp: callHandlers_def done_ok_def fst_seq split: if_splits
      dest: handle_all_events call_ancestors_events)

lemma fst_Logger_log:
  "fst (Logger_log w lg lv m) =
     Log lv m # (if isEnabledFor w lg lv
                 then fst (callHandlers w lg (makeRecord w lg lv m)) else [])"
  by (simp add: Logger_log_def fst_seq done_ok_def)


lemma Logger_log_events:
  "e \<in> set (fst (Logger_log w lg lv m)) \<Longrightarrow> e = Log lv m \<or> (\<exists>t msg. e = Publish t msg)"
  by (auto simp: fst_Logger_log split: if_splits dest: callHandlers_events)

lemma Logger_log_no_application:
  "e \<in> set (fst (Logger_log w lg lv m)) \<Longrightarrow> \<not> touches_application e"
  by (auto dest: Logger_log_events)






lemma skip_stacklevel_1: "skip_stacklevel f 1 = f"
  by (cases f) simp_all

lemma set_skip_stacklevel: "set (skip_stacklevel f stacklevel) \<subseteq> set f"
  by (induction f arbitrary: stacklevel) auto


lemma first_outside_all_core:
  "\<forall>f \<in> set fs. \<not> outside_core w f \<Longrightarrow> first_outside w fs stack_info = sentinel"
  by (induction fs) (simp_all add: outside_core_def)

lemma first_outside_never_core:
  "first_outside w fs stack_info = sentinel
   \<or> normcase w (fst (first_outside w fs stack_info)) \<noteq> srcfile w"
  by (induction fs) simp_all

lemma findCaller_deep:
  "3 < length stack \<Longrightarrow>
   findCaller w stack stack_info stacklevel
     = Inr (first_outside w (walk_start stack stacklevel) stack_info)"
  by (simp add: findCaller_def currentframe_def getframe_def Let_def walk_start_def tl_drop
      drop_Suc [symmetric] numeral_eq_Suc drop_tl)

lemma findCaller_shallow:
  "length stack \<le> 3 \<Longrightarrow> findCaller w stack stack_info stacklevel = Inl ValueError"
  by (simp add: findCaller_def currentframe_def getframe_def)

lemma walk_start_1: "walk_start stack 1 = drop 4 stack"
  by (simp add: walk_start_def skip_stacklevel_1)


lemma findCaller_network_bottom:
  "findCaller w (network_stack w []) stack_info stacklevel = Inl ValueError"
  by (simp add: findCaller_shallow network_stack_def)

lemma first_outside_dropWhile:
  "first_outside w fs stack_info =
     (case dropWhile (\<lambda>f. \<not> outside_core w f) fs of
        [] \<Rightarrow> sentinel
      | f # back \<Rightarrow>
          (co_filename f, f_lineno f, co_name f,
           if stack_info then Some (stack_text w (f # back)) else None))"
  by (induction fs) (simp_all add: outside_core_def)


lemma plain_logger_log: "Logger_log w plain_logger lv m = ([Log lv m], None)"
  by (simp add: Logger_log_def plain_logger_def callHandlers_def seq_def done_ok_def)

lemma remote_logger_enabled:
  "manager_disable w = 0 \<Longrightarrow> isEnabledFor w remote_logger lv \<longleftrightarrow> 0 < lv"
  by (auto simp: isEnabledFor_def remote_logger_def getEffectiveLevel_def)

lemma remote_logger_callHandlers:
  "callHandlers w remote_logger r =
     (if 0 \<le> levelno r then emit w remote_handler r else done_ok)"
  by (simp add: callHandlers_def remote_logger_def remote_handler_def seq_done_ok)

lemma remote_logger_log_hello:
  "Logger_log posix_world remote_logger 20 ''hello''
     = ([Log 20 ''hello'',
         Publish ''hbot/bot7/log''
           \<lparr>timestamp = 1700000000, msg = ''hello'', level_no = 20, level_name = ''INFO'',
            logger_name = ''x.y''\<rparr>], None)"
proof -
  have "manager_disable posix_world = 0" by (simp add: posix_world_def)
  then have en: "isEnabledFor posix_world remote_logger 20" by (simp add: remote_logger_enabled)
  have "emit posix_world remote_handler (makeRecord posix_world remote_logger 20 ''hello'')
      = ([Publish ''hbot/bot7/log''
           \<lparr>timestamp = 1700000000, msg = ''hello'', level_no = 20, level_name = ''INFO'',
            logger_name = ''x.y''\<rparr>], None)"
    by (simp add: emit_def makeRecord_def to_message_def posix_world_def remote_logger_def
        remote_handler_def)
  with en show ?thesis
    by (simp add: Logger_log_def remote_logger_callHandlers makeRecord_def seq_def)
qed

lemma not_testing_posix: "\<not> is_testing_mode (argv posix_world)"
  by (simp add: posix_world_def is_testing_mode_def TESTING_TOOLS_def)



text \<open>When \<^verbatim>\<open>network\<close> is the outermost frame, the lookup it makes raises after the
  \<^verbatim>\<open>NETWORK\<close> logging call.\<close>

lemma network_without_caller:
  "\<not> is_testing_mode (argv w) \<Longrightarrow>
   network w self [] log_msg (Some wm) =
     seq (Logger_log w self (NETWORK w) log_msg) ([], Some ValueError)"
  by (simp add: network_def findCaller_network_bottom)

subsection \<open>Test-mode detection\<close>

text \<open>
  Claim C10. Test-mode detection returns true if and only if some invocation argument
  contains one of the strings \<^verbatim>\<open>nose\<close>, \<^verbatim>\<open>unittest\<close>, \<^verbatim>\<open>pytest\<close> as a substring; whenever it
  does, for instance because of a file path that contains \<^verbatim>\<open>pytest\<close>, \<^verbatim>\<open>notify\<close> and
  \<^verbatim>\<open>network\<close> do nothing beyond their logging call.
\<close>

theorem is_testing_mode_iff:
  "(is_testing_mode args \<longleftrightarrow>
      (\<exists>arg \<in> set args. \<exists>tool \<in> {''nose'', ''unittest'', ''pytest''}.
         \<exists>pre post. arg = pre @ tool @ post))
   \<and> (is_testing_mode (argv w) \<longrightarrow>
        notify w self m = Logger_log w self (INFO w) m
      \<and> network w self callers log_msg app_warning_msg = Logger_log w self (NETWORK w) log_msg)"
proof (intro conjI impI)
  show "is_testing_mode args \<longleftrightarrow>
      (\<exists>arg \<in> set args. \<exists>tool \<in> {''nose'', ''unittest'', ''pytest''}.
         \<exists>pre post. arg = pre @ tool @ post)"
    unfolding is_testing_mode_set set_TESTING_TOOLS str_in_iff ..
qed (rule notify_testing network_testing, assumption)+

theorem is_testing_mode_iff_witness:
  "is_testing_mode [''bin/hummingbot.py'', ''/home/pytest_user/conf.yml'']
   \<and> \<not> is_testing_mode [''bin/hummingbot.py'', ''--config'', ''conf.yml'']
   \<and> notify (posix_world\<lparr>argv := [''bin/hummingbot.py'', ''/home/pytest_user/conf.yml'']\<rparr>)
        plain_logger ''hello'' = ([Log 20 ''hello''], None)"
proof -
  have a: "is_testing_mode [''bin/hummingbot.py'', ''/home/pytest_user/conf.yml'']"
    and b: "\<not> is_testing_mode [''bin/hummingbot.py'', ''--config'', ''conf.yml'']"
    by (simp_all add: is_testing_mode_def TESTING_TOOLS_def)
  from a have "is_testing_mode
      (argv (posix_world\<lparr>argv := [''bin/hummingbot.py'', ''/home/pytest_user/conf.yml'']\<rparr>))"
    by simp
  with is_testing_mode_iff [where
      w = "posix_world\<lparr>argv := [''bin/hummingbot.py'', ''/home/pytest_user/conf.yml'']\<rparr>"
      and self = plain_logger and m = "''hello''"]
  have "notify (posix_world\<lparr>argv := [''bin/hummingbot.py'', ''/home/pytest_user/conf.yml'']\<rparr>)
          plain_logger ''hello''
        = Logger_log (posix_world\<lparr>argv := [''bin/hummingbot.py'', ''/home/pytest_user/conf.yml'']\<rparr>)
            plain_logger
            (INFO (posix_world\<lparr>argv := [''bin/hummingbot.py'', ''/home/pytest_user/conf.yml'']\<rparr>))
            ''hello''"
    by blast
  with a b show ?thesis
    by (simp add: plain_logger_log) (simp add: posix_world_def)
qed

subsection \<open>Construction of the logger and of the remote sink\<close>

text \<open>
  Claim C7. The remote sink is attached when the logger is constructed if and only if the
  variable \<^verbatim>\<open>HBOT_MQTT_LOGGING\<close> holds one of the eight tokens of the allow-list; with any
  other value (\<^verbatim>\<open>TRUE\<close> and \<^verbatim>\<open>yes\<close> among them) and with the variable unset, no handler is
  attached.
\<close>

theorem remote_sink_attached_iff:
  "(handlers (HummingbotLogger_init w nm) \<noteq> [] \<longleftrightarrow>
      (\<exists>tok \<in> {''1'', ''True'', ''true'', ''Yes'', ''Nai'', ''Si'', ''Da'', ''sudo''}.
         getenv w ''HBOT_MQTT_LOGGING'' = Some tok))
   \<and> handlers (HummingbotLogger_init w nm) =
       (if \<exists>tok \<in> {''1'', ''True'', ''true'', ''Yes'', ''Nai'', ''Si'', ''Da'', ''sudo''}.
             getenv w ''HBOT_MQTT_LOGGING'' = Some tok
        then [MQTTHandler_init w None (Some '''')] else [])"
proof -
  have "getenv w ''HBOT_MQTT_LOGGING'' \<in> Some ` set remote_logging_tokens \<longleftrightarrow>
      (\<exists>tok \<in> {''1'', ''True'', ''true'', ''Yes'', ''Nai'', ''Si'', ''Da'', ''sudo''}.
         getenv w ''HBOT_MQTT_LOGGING'' = Some tok)"
    unfolding remote_logging_tokens_def by (cases "getenv w ''HBOT_MQTT_LOGGING''") auto
  then show ?thesis
    by (simp only: init_handlers) simp
qed

theorem remote_sink_attached_iff_witness:
  "handlers (HummingbotLogger_init (posix_world\<lparr>getenv := (\<lambda>k. Some ''Si'')\<rparr>) ''x.y'') \<noteq> []
   \<and> handlers (HummingbotLogger_init (posix_world\<lparr>getenv := (\<lambda>k. Some ''TRUE'')\<rparr>) ''x.y'') = []
   \<and> handlers (HummingbotLogger_init (posix_world\<lparr>getenv := (\<lambda>k. Some ''yes'')\<rparr>) ''x.y'') = []
   \<and> handlers (HummingbotLogger_init (posix_world\<lparr>getenv := (\<lambda>k. None)\<rparr>) ''x.y'') = []"
  using remote_sink_attached_iff [of "posix_world\<lparr>getenv := (\<lambda>k. Some ''Si'')\<rparr>" "''x.y''"]
    remote_sink_attached_iff [of "posix_world\<lparr>getenv := (\<lambda>k. Some ''TRUE'')\<rparr>" "''x.y''"]
    remote_sink_attached_iff [of "posix_world\<lparr>getenv := (\<lambda>k. Some ''yes'')\<rparr>" "''x.y''"]
    remote_sink_attached_iff [of "posix_world\<lparr>getenv := (\<lambda>k. None)\<rparr>" "''x.y''"]
  by simp

text \<open>
  Claim C9. A remote sink constructed with no topic of its own (the empty string or none)
  publishes on the template \<^verbatim>\<open>hbot/$UID/log\<close> with \<^verbatim>\<open>$UID\<close> replaced by the value of the
  variable \<^verbatim>\<open>HBOT_UID\<close>; this is the topic of the sink that the logger attaches when remote
  logging is enabled.
\<close>

theorem default_topic:
  assumes "mqtt_topic = None \<or> mqtt_topic = Some ''''"
    and "getenv w ''HBOT_UID'' = Some uid"
  shows "topic (MQTTHandler_init w mqtt_params mqtt_topic) = replace ''$UID'' uid MQTT_URI
       \<and> topic (MQTTHandler_init w mqtt_params mqtt_topic) = ''hbot/'' @ uid @ ''/log''
       \<and> (getenv w ''HBOT_MQTT_LOGGING'' \<in> Some ` set remote_logging_tokens \<longrightarrow>
            map topic (handlers (HummingbotLogger_init w nm)) = [''hbot/'' @ uid @ ''/log''])"
  using assms
  by (auto simp: MQTTHandler_init_def Let_def str_of_env_def replace_MQTT_URI init_handlers)

theorem default_topic_witness:
  "topic (MQTTHandler_init posix_world None None) = ''hbot/bot7/log''
   \<and> map topic (handlers (HummingbotLogger_init posix_world ''x.y'')) = [''hbot/bot7/log'']"
  using default_topic [of None posix_world "''bot7''" None "''x.y''"]
  by (simp add: posix_world_def remote_logging_tokens_def MQTT_URI_def)

text \<open>With the variable unset the placeholder is replaced by the text \<^verbatim>\<open>None\<close>.\<close>

lemma default_topic_unset:
  "getenv w ''HBOT_UID'' = None \<Longrightarrow>
   topic (MQTTHandler_init w mqtt_params None) = ''hbot/None/log''"
  by (simp add: MQTTHandler_init_def Let_def str_of_env_def MQTT_URI_def)

subsection \<open>Emission to the remote sink\<close>

text \<open>
  Claim C8. The message that \<^verbatim>\<open>emit\<close> hands to the transport carries the record's formatted
  message, level number, level name and logger name in \<^verbatim>\<open>msg\<close>, \<^verbatim>\<open>level_no\<close>,
  \<^verbatim>\<open>level_name\<close> and \<^verbatim>\<open>logger_name\<close>, and the reading of the clock taken during the call in
  \<^verbatim>\<open>timestamp\<close>; \<^verbatim>\<open>emit\<close> produces this one message whenever the record can be formatted,
  and none otherwise.
\<close>

theorem emit_message_fields:
  "(\<forall>s. format w r = Inr s \<longrightarrow>
      (\<exists>m. fst (emit w h r) = [Publish (topic h) m]
         \<and> msg m = s \<and> level_no m = levelno r \<and> level_name m = levelname r
         \<and> logger_name m = record_name r \<and> timestamp m = time w))
   \<and> (\<forall>e. format w r = Inl e \<longrightarrow> fst (emit w h r) = [])"
  by (simp add: emit_def to_message_def Let_def)

theorem emit_message_fields_witness:
  "fst (emit posix_world (MQTTHandler_init posix_world None None) hello_record)
     = [Publish ''hbot/bot7/log''
          \<lparr>timestamp = 1700000000, msg = ''hello'', level_no = 20, level_name = ''INFO'',
           logger_name = ''x.y''\<rparr>]"
proof -
  have f: "format posix_world hello_record = Inr ''hello''"
    by (simp add: posix_world_def hello_record_def)
  from emit_message_fields [of posix_world hello_record "MQTTHandler_init posix_world None None"] f
  obtain m where "fst (emit posix_world (MQTTHandler_init posix_world None None) hello_record)
        = [Publish (topic (MQTTHandler_init posix_world None None)) m]"
    and "msg m = ''hello''" and "level_no m = levelno hello_record"
    and "level_name m = levelname hello_record" and "logger_name m = record_name hello_record"
    and "timestamp m = time posix_world"
    by blast
  then show ?thesis
    by (cases m) (simp add: posix_world_def hello_record_def MQTTHandler_init_def str_of_env_def
        MQTT_URI_def)
qed

subsection \<open>Failures inside the remote sink\<close>




subsection \<open>The domain operations\<close>

text \<open>
  Claim C2, as stated, fails: \<^verbatim>\<open>notify\<close> logs at the package's \<^verbatim>\<open>INFO\<close> level, and the NOTIFY
  level lies strictly above it.
\<close>

theorem notify_level_counterexample:
  "levels_ok posix_world
   \<and> notify posix_world plain_logger ''hello''
       = ([Log (INFO posix_world) ''hello'', MainApplication,
           AppNotify ''(2023-11-14 22:13:20) hello''], None)
   \<and> INFO posix_world \<noteq> NOTIFY posix_world
   \<and> Log (NOTIFY posix_world) ''hello'' \<notin> set (fst (notify posix_world plain_logger ''hello''))"
proof -
  have n: "notify posix_world plain_logger ''hello''
       = ([Log (INFO posix_world) ''hello'', MainApplication,
           AppNotify ''(2023-11-14 22:13:20) hello''], None)"
    by (simp add: notify_def plain_logger_log not_testing_posix seq_def main_application_def
        app_call_def)
      (simp add: posix_world_def py_int_def)
  have l: "levels_ok posix_world" "INFO posix_world \<noteq> NOTIFY posix_world"
    by (simp_all add: levels_ok_def WARNING_def posix_world_def)
  from n l show ?thesis by simp
qed

text \<open>
  Claim C2, amended. For every message, \<^verbatim>\<open>notify\<close> first logs the message at the \<^verbatim>\<open>INFO\<close>
  level and logs nothing at the NOTIFY level; outside test mode, when that logging call
  returns normally and the application exists, it then hands the text
  \<^verbatim>\<open>(timestamp) message\<close> to the application's \<^verbatim>\<open>notify\<close>; in test mode it does nothing
  else.
\<close>

theorem notify_logs_at_INFO:
  "(\<exists>rest. fst (notify w self m) = Log (INFO w) m # rest)
   \<and> (levels_ok w \<longrightarrow> Log (NOTIFY w) m \<notin> set (fst (notify w self m)))
   \<and> (\<not> is_testing_mode (argv w) \<and> snd (Logger_log w self (INFO w) m) = None
        \<and> has_main_application w \<longrightarrow>
      notify w self m =
        (fst (Logger_log w self (INFO w) m)
           @ [MainApplication, AppNotify (''('' @ timestamp_str w (py_int (time w)) @ '') '' @ m)],
         None))
   \<and> (is_testing_mode (argv w) \<longrightarrow> notify w self m = Logger_log w self (INFO w) m)"
proof (intro conjI impI)
  show "\<exists>rest. fst (notify w self m) = Log (INFO w) m # rest"
    by (simp add: notify_def fst_seq fst_Logger_log)
next
  assume ok: "levels_ok w"
  have "e \<in> set (fst (notify w self m)) \<Longrightarrow> e \<noteq> Log (NOTIFY w) m" for e
    using ok
    by (auto simp: notify_def fst_seq main_application_def app_call_def done_ok_def levels_ok_def
        split: if_splits dest: Logger_log_events)
  then show "Log (NOTIFY w) m \<notin> set (fst (notify w self m))" by blast
next
  assume "\<not> is_testing_mode (argv w) \<and> snd (Logger_log w self (INFO w) m) = None
        \<and> has_main_application w"
  then show "notify w self m =
        (fst (Logger_log w self (INFO w) m)
           @ [MainApplication, AppNotify (''('' @ timestamp_str w (py_int (time w)) @ '') '' @ m)],
         None)"
    by (simp add: notify_def seq_def main_application_def app_call_def)
next
  assume "is_testing_mode (argv w)"
  then show "notify w self m = Logger_log w self (INFO w) m" by (rule notify_testing)
qed

theorem notify_logs_at_INFO_witness:
  "notify posix_world remote_logger ''hello''
     = ([Log 20 ''hello'',
         Publish ''hbot/bot7/log''
           \<lparr>timestamp = 1700000000, msg = ''hello'', level_no = 20, level_name = ''INFO'',
            logger_name = ''x.y''\<rparr>,
         MainApplication, AppNotify ''(2023-11-14 22:13:20) hello''], None)"
proof -
  have i: "INFO posix_world = 20" by (simp add: posix_world_def)
  have h: "\<not> is_testing_mode (argv posix_world)
      \<and> snd (Logger_log posix_world remote_logger (INFO posix_world) ''hello'') = None
      \<and> has_main_application posix_world"
    by (simp add: i remote_logger_log_hello not_testing_posix) (simp add: posix_world_def)
  from notify_logs_at_INFO [of posix_world remote_logger "''hello''"] h
  have "notify posix_world remote_logger ''hello'' =
        (fst (Logger_log posix_world remote_logger (INFO posix_world) ''hello'')
           @ [MainApplication,
              AppNotify (''('' @ timestamp_str posix_world (py_int (time posix_world)) @ '') ''
                @ ''hello'')],
         None)" by blast
  then show ?thesis
    by (simp add: i remote_logger_log_hello) (simp add: posix_world_def py_int_def)
qed




text \<open>
  Claim C4. When some invocation argument contains the name of a test runner, neither
  \<^verbatim>\<open>notify\<close> nor \<^verbatim>\<open>network\<close> calls the accessor of the application or one of its methods,
  whatever their arguments.
\<close>

theorem test_mode_never_touches_application:
  assumes "\<exists>arg \<in> set (argv w). \<exists>tool \<in> {''nose'', ''unittest'', ''pytest''}.
             \<exists>pre post. arg = pre @ tool @ post"
  shows "(\<forall>e \<in> set (fst (notify w self m)). \<not> touches_application e)
       \<and> (\<forall>e \<in> set (fst (network w self callers log_msg app_warning_msg)).
            \<not> touches_application e)"
proof -
  from assms have t: "is_testing_mode (argv w)"
    unfolding is_testing_mode_set set_TESTING_TOOLS str_in_iff .
  show ?thesis
    by (simp only: notify_testing [OF t] network_testing [OF t])
      (blast dest: Logger_log_no_application)
qed

theorem test_mode_never_touches_application_witness:
  "filter touches_application (fst (notify pytest_world remote_logger ''x'')) = []
   \<and> filter touches_application
       (fst (network pytest_world remote_logger [strategy_frame, main_frame] ''x''
               (Some ''y''))) = []"
proof -
  have "str_in ''pytest'' ''/usr/bin/pytest''" by simp
  then have "\<exists>pre post. ''/usr/bin/pytest'' = pre @ ''pytest'' @ post"
    by (simp only: str_in_iff)
  then have h: "\<exists>arg \<in> set (argv pytest_world). \<exists>tool \<in> {''nose'', ''unittest'', ''pytest''}.
             \<exists>pre post. arg = pre @ tool @ post"
    by (simp add: pytest_world_def posix_world_def)
  from test_mode_never_touches_application [OF h, of remote_logger "''x''"
      "[strategy_frame, main_frame]" "''x''" "Some ''y''"]
  show ?thesis by (simp add: filter_empty_conv)
qed

subsection \<open>The caller lookup\<close>

text \<open>
  Claim C5, as stated, fails: the frames directly above \<^verbatim>\<open>findCaller\<close> are not compared with
  the path of this module. When \<^verbatim>\<open>network\<close>, called from \<^verbatim>\<open>strategy.py\<close>, logs through
  \<^verbatim>\<open>self.warning\<close>, the first frame above \<^verbatim>\<open>findCaller\<close> whose path is not that of this
  module is the standard library's \<^verbatim>\<open>_log\<close>; the location returned is that of the call in
  \<^verbatim>\<open>strategy.py\<close>.
\<close>

theorem findCaller_first_external_counterexample:
  "find (outside_core posix_world)
     (drop 2 (currentframe_frame posix_world # findCaller_frame posix_world # stdlib_log_frame
               # stdlib_warning_frame # network_frame posix_world # strategy_frame
               # [main_frame]))
     = Some stdlib_log_frame
   \<and> findCaller posix_world
       (currentframe_frame posix_world # findCaller_frame posix_world # stdlib_log_frame
          # stdlib_warning_frame # network_frame posix_world # strategy_frame # [main_frame])
       False 1
       = Inr (location_of strategy_frame)
   \<and> location_of strategy_frame \<noteq> location_of stdlib_log_frame"
proof (intro conjI)
  show "find (outside_core posix_world)
     (drop 2 (currentframe_frame posix_world # findCaller_frame posix_world # stdlib_log_frame
               # stdlib_warning_frame # network_frame posix_world # strategy_frame
               # [main_frame]))
     = Some stdlib_log_frame"
    by (simp add: outside_core_def srcfile_def posix_world_def stdlib_log_frame_def)
  show "findCaller posix_world
       (currentframe_frame posix_world # findCaller_frame posix_world # stdlib_log_frame
          # stdlib_warning_frame # network_frame posix_world # strategy_frame # [main_frame])
       False 1
       = Inr (location_of strategy_frame)"
    by (simp add: findCaller_deep walk_start_1 srcfile_def network_frame_def posix_world_def
        strategy_frame_def location_of_def)
  show "location_of strategy_frame \<noteq> location_of stdlib_log_frame"
    by (simp add: location_of_def strategy_frame_def stdlib_log_frame_def)
qed

text \<open>
  Claim C5, amended. A location that \<^verbatim>\<open>findCaller\<close> returns is the sentinel or has a source
  path that differs, after \<^verbatim>\<open>normcase\<close>, from that of this module (so it never has the path
  of this module, the sentinel's \<^verbatim>\<open>(unknown file)\<close> not being that path). The lookup is made
  for the chain of calls logging method, \<^verbatim>\<open>_log\<close>, \<^verbatim>\<open>findCaller\<close>: on a stack that holds the
  frames of \<^verbatim>\<open>currentframe\<close>, \<^verbatim>\<open>findCaller\<close>, \<^verbatim>\<open>_log\<close> and the logging method, the walk
  starts, with the default \<^verbatim>\<open>stacklevel\<close>, at the frame that called the logging method;
  from there frames of this module are skipped and the file, line and function of the first
  other frame are returned, with the text of the stack when \<^verbatim>\<open>stack_info\<close> is set, and the
  sentinel when there is none. With another \<^verbatim>\<open>stacklevel\<close> the walk starts that many frames
  further out.
\<close>

theorem findCaller_location:
  "(findCaller w stack stack_info stacklevel = Inr loc \<longrightarrow>
      loc = sentinel \<or> normcase w (fst loc) \<noteq> srcfile w)
   \<and> (normcase w ''(unknown file)'' \<noteq> srcfile w
        \<and> findCaller w stack stack_info stacklevel = Inr loc \<longrightarrow>
      normcase w (fst loc) \<noteq> srcfile w)
   \<and> findCaller w (cur # fnd # log_inner # log_outer # callers) stack_info 1 =
        Inr (case dropWhile (\<lambda>f. normcase w (co_filename f) = srcfile w) callers of
               [] \<Rightarrow> sentinel
             | f # back \<Rightarrow>
                 (co_filename f, f_lineno f, co_name f,
                  if stack_info then Some (stack_text w (f # back)) else None))
   \<and> (3 < length stack \<longrightarrow>
      findCaller w stack stack_info stacklevel =
        Inr (case dropWhile (\<lambda>f. normcase w (co_filename f) = srcfile w)
                    (walk_start stack stacklevel) of
               [] \<Rightarrow> sentinel
             | f # back \<Rightarrow>
                 (co_filename f, f_lineno f, co_name f,
                  if stack_info then Some (stack_text w (f # back)) else None)))"
proof -
  have a: "loc = sentinel \<or> normcase w (fst loc) \<noteq> srcfile w"
    if "findCaller w stack stack_info stacklevel = Inr loc"
  proof (cases "3 < length stack")
    case True
    with that have "loc = first_outside w (walk_start stack stacklevel) stack_info"
      by (simp add: findCaller_deep)
    then show ?thesis using first_outside_never_core by blast
  next
    case False
    with that show ?thesis by (simp add: findCaller_shallow)
  qed
  have b: "normcase w (fst loc) \<noteq> srcfile w"
    if "normcase w ''(unknown file)'' \<noteq> srcfile w"
      and "findCaller w stack stack_info stacklevel = Inr loc"
    using a [OF that(2)] that(1) by (auto simp: sentinel_def)
  have c: "findCaller w (cur # fnd # log_inner # log_outer # callers) stack_info 1 =
        Inr (case dropWhile (\<lambda>f. normcase w (co_filename f) = srcfile w) callers of
               [] \<Rightarrow> sentinel
             | f # back \<Rightarrow>
                 (co_filename f, f_lineno f, co_name f,
                  if stack_info then Some (stack_text w (f # back)) else None))"
    by (simp add: findCaller_deep walk_start_1 first_outside_dropWhile outside_core_def)
  have d: "findCaller w stack stack_info stacklevel =
        Inr (case dropWhile (\<lambda>f. normcase w (co_filename f) = srcfile w)
                    (walk_start stack stacklevel) of
               [] \<Rightarrow> sentinel
             | f # back \<Rightarrow>
                 (co_filename f, f_lineno f, co_name f,
                  if stack_info then Some (stack_text w (f # back)) else None))"
    if "3 < length stack"
    using that by (simp add: findCaller_deep first_outside_dropWhile outside_core_def)
  from a b c d show ?thesis by blast
qed

theorem findCaller_location_witness:
  "findCaller posix_world
     (currentframe_frame posix_world # findCaller_frame posix_world # stdlib_log_frame
        # stdlib_warning_frame # network_frame posix_world # strategy_frame # [main_frame])
     True 1
     = Inr (''/app/strategy.py'', 10, ''tick'',
            Some (''Stack (most recent call last):'' @ [CHR 0x0A] @ ''<module>''
                    @ [CHR 0x0A] @ ''tick''))"
proof -
  have h: "3 < length (currentframe_frame posix_world # findCaller_frame posix_world
        # stdlib_log_frame # stdlib_warning_frame # network_frame posix_world # strategy_frame
        # [main_frame])"
    by simp
  from findCaller_location [where w = posix_world and stack_info = True and stacklevel = 1
      and stack = "currentframe_frame posix_world # findCaller_frame posix_world
        # stdlib_log_frame # stdlib_warning_frame # network_frame posix_world # strategy_frame
        # [main_frame]"] h
  have "findCaller posix_world
     (currentframe_frame posix_world # findCaller_frame posix_world # stdlib_log_frame
        # stdlib_warning_frame # network_frame posix_world # strategy_frame # [main_frame])
     True 1
     = Inr (case dropWhile (\<lambda>f. normcase posix_world (co_filename f) = srcfile posix_world)
                   (walk_start (currentframe_frame posix_world # findCaller_frame posix_world
                      # stdlib_log_frame # stdlib_warning_frame # network_frame posix_world
                      # strategy_frame # [main_frame]) 1) of
               [] \<Rightarrow> sentinel
             | f # back \<Rightarrow>
                 (co_filename f, f_lineno f, co_name f,
                  if True then Some (stack_text posix_world (f # back)) else None))"
    by blast
  then show ?thesis
    by (simp add: walk_start_1 srcfile_def network_frame_def strategy_frame_def main_frame_def
        stack_text_def posix_world_def)
qed

text \<open>
  Claim C6, as stated, fails: called from module level, \<^verbatim>\<open>findCaller\<close> runs on a stack of three
  frames and \<^verbatim>\<open>sys._getframe(3)\<close> raises \<^verbatim>\<open>ValueError\<close>, which nothing catches.
\<close>

theorem findCaller_raises_counterexample:
  "findCaller posix_world
     [currentframe_frame posix_world, findCaller_frame posix_world, main_frame] False 1
     = Inl ValueError"
  by (simp add: findCaller_def currentframe_def getframe_def)

text \<open>
  Claim C6, amended. On every stack of more than three frames (those of \<^verbatim>\<open>currentframe\<close>
  and \<^verbatim>\<open>findCaller\<close> and two above them) \<^verbatim>\<open>findCaller\<close> returns a location, and when every
  frame from the start of its walk on belongs to this module it returns the sentinel; on a
  shallower stack it raises \<^verbatim>\<open>ValueError\<close>.
\<close>

theorem findCaller_returns_on_deep_stacks:
  "(3 < length stack \<longrightarrow> (\<exists>loc. findCaller w stack stack_info stacklevel = Inr loc))
   \<and> (3 < length stack \<and> (\<forall>f \<in> set (walk_start stack stacklevel). \<not> outside_core w f) \<longrightarrow>
        findCaller w stack stack_info stacklevel = Inr sentinel)
   \<and> (length stack \<le> 3 \<longrightarrow> findCaller w stack stack_info stacklevel = Inl ValueError)"
proof (intro conjI impI)
  assume "3 < length stack"
  then show "\<exists>loc. findCaller w stack stack_info stacklevel = Inr loc"
    using findCaller_deep by blast
next
  assume "3 < length stack \<and> (\<forall>f \<in> set (walk_start stack stacklevel). \<not> outside_core w f)"
  then show "findCaller w stack stack_info stacklevel = Inr sentinel"
    by (simp add: findCaller_deep first_outside_all_core)
next
  assume "length stack \<le> 3"
  then show "findCaller w stack stack_info stacklevel = Inl ValueError"
    by (rule findCaller_shallow)
qed

theorem findCaller_returns_on_deep_stacks_witness:
  "findCaller posix_world (network_stack posix_world [strategy_frame, network_frame posix_world])
     False 1 = Inr (''(unknown file)'', 0, ''(unknown function)'', None)
   \<and> findCaller posix_world (network_stack posix_world [strategy_frame]) True 2
       = Inr (''(unknown file)'', 0, ''(unknown function)'', None)"
proof -
  have h1: "3 < length (network_stack posix_world [strategy_frame, network_frame posix_world])
      \<and> (\<forall>f \<in> set (walk_start (network_stack posix_world
                 [strategy_frame, network_frame posix_world]) 1). \<not> outside_core posix_world f)"
    by (simp add: network_stack_def walk_start_1 outside_core_def srcfile_def network_frame_def
        posix_world_def)
  have h2: "3 < length (network_stack posix_world [strategy_frame])
      \<and> (\<forall>f \<in> set (walk_start (network_stack posix_world [strategy_frame]) 2).
            \<not> outside_core posix_world f)"
    by (simp add: network_stack_def walk_start_def)
  from findCaller_returns_on_deep_stacks [where w = posix_world and stack_info = False
      and stacklevel = 1
      and stack = "network_stack posix_world [strategy_frame, network_frame posix_world]"] h1
    findCaller_returns_on_deep_stacks [where w = posix_world and stack_info = True
      and stacklevel = 2 and stack = "network_stack posix_world [strategy_frame]"] h2
  show ?thesis by (simp add: sentinel_def)
qed

text \<open>Reached from \<^verbatim>\<open>network\<close> through \<^verbatim>\<open>self.warning\<close> and \<^verbatim>\<open>_log\<close>, the lookup gives the location
  of the caller of \<^verbatim>\<open>network\<close>, when that frame is outside this module.\<close>

lemma findCaller_through_warning:
  "outside_core w c \<Longrightarrow>
   findCaller w (currentframe_frame w # findCaller_frame w # log_inner # log_outer
                  # network_frame w # c # outer) False 1
     = Inr (location_of c)"
  by (simp add: findCaller_deep walk_start_1 network_frame_def outside_core_def location_of_def
      srcfile_def)

end
